theory Spec2Isabelle
  imports Main
begin

section \<open>The command tree\<close>

text \<open>
  The execution engine of the mini shell is the single file \<^verbatim>\<open>src/cmd.c\<close>. The types
  it walks over (\<^verbatim>\<open>word_t\<close>, \<^verbatim>\<open>simple_command_t\<close>, \<^verbatim>\<open>command_t\<close>,
  \<^verbatim>\<open>operator_t\<close>) are declared in a parser header that is not among the sources, so
  they are written down here from the way \<^verbatim>\<open>cmd.c\<close> uses them: a field the code
  compares with \<^verbatim>\<open>NULL\<close>, or that is \<^verbatim>\<open>NULL\<close> in a well-formed tree (the
  children of a leaf, the simple command of an operator node), is an \<open>option\<close>; the
  verb of a simple command, which the code dereferences without a test, is always there.
\<close>

text \<open>A word is a chain of parts; \<^verbatim>\<open>cmd.c\<close> reads \<^verbatim>\<open>string\<close> and \<^verbatim>\<open>next_part\<close>.\<close>

datatype word = Word (string: string) (next_part: "word option")

text \<open>The field \<^verbatim>\<open>in\<close> of the C struct is called \<open>inp\<close> here.\<close>

record simple_command =
  verb :: word
  params :: "word option"
  inp :: "word option"
  out :: "word option"
  err :: "word option"
  io_flags :: int

text \<open>
  Modelled from the spec: the enumeration \<^verbatim>\<open>operator_t\<close>. The spec lists the leaf and
  five operators; the constructors carry the names \<^verbatim>\<open>cmd.c\<close> uses for them. A C
  enumeration can hold further values, which is what the \<^verbatim>\<open>default\<close> branch of
  \<^verbatim>\<open>parse_command\<close> is for: \<open>OP_OTHER n\<close> stands for any of them.
\<close>

datatype operator =
    OP_NONE
  | OP_SEQUENTIAL
  | OP_PARALLEL
  | OP_CONDITIONAL_NZERO
  | OP_CONDITIONAL_ZERO
  | OP_PIPE
  | OP_OTHER nat

datatype command =
  Command (op: operator) (scmd: "simple_command option")
          (cmd1: "command option") (cmd2: "command option")

section \<open>The operating system as the code sees it\<close>

text \<open>
  Every system call the code makes is written to a trace, in the order the calls are made.
  What the system answers is not decided by the shell: it is read from an oracle that may
  depend on everything that happened so far, that is, on the trace. All theorems below
  hold for every oracle unless they say otherwise.
\<close>

datatype oflag = O_RDONLY | O_WRONLY | O_CREAT | O_APPEND | O_TRUNC

datatype event =
    Ev_open string "oflag set" "nat option"
  | Ev_dup2 int int
  | Ev_close int
  | Ev_fflush int
  | Ev_chdir string
  | Ev_setenv string string int
  | Ev_fork
  | Ev_pipe
  | Ev_execvp "string list"
  | Ev_waitpid
  | Ev_exit int
  | Ev_killed int

type_synonym trace = "event list"

text \<open>
  The record \<open>sys\<close> collects what \<^verbatim>\<open>cmd.c\<close> takes from outside itself.
  \<^item> Constants of headers that are not among the sources: \<open>SHELL_EXIT\<close>,
    \<open>IO_OUT_APPEND\<close>, \<open>IO_ERR_APPEND\<close>. They are parameters; no value is assumed.
  \<^item> Helpers of the parser that are not among the sources: \<open>get_word\<close> (the string a
    word resolves to; it may read the environment, hence the trace) and \<open>get_argv\<close>.
  \<^item> The answers of the operating system: \<open>os_open\<close> and \<open>os_dup2\<close> return what the
    C calls return (\<open>-1\<close> on failure), \<open>os_chdir\<close> and \<open>os_setenv\<close> likewise;
    \<open>fork_ok\<close> says whether \<^verbatim>\<open>fork\<close> creates the child (otherwise it returns \<open>-1\<close>);
    \<open>os_pipe\<close> gives the two descriptors, or \<open>None\<close> when \<^verbatim>\<open>pipe\<close> returns \<open>-1\<close>;
    \<open>os_execvp\<close> is \<open>None\<close> when \<^verbatim>\<open>execvp\<close> returns \<open>-1\<close>, and otherwise the raw
    wait status with which the program that replaced the image ends (programs are taken
    to end, so that \<^verbatim>\<open>waitpid\<close> returns).
\<close>

record sys =
  SHELL_EXIT :: int
  IO_OUT_APPEND :: int
  IO_ERR_APPEND :: int
  get_word :: "trace \<Rightarrow> word option \<Rightarrow> string"
  get_argv :: "trace \<Rightarrow> simple_command \<Rightarrow> string list"
  os_open :: "trace \<Rightarrow> string \<Rightarrow> oflag set \<Rightarrow> int"
  os_dup2 :: "trace \<Rightarrow> int \<Rightarrow> int \<Rightarrow> int"
  os_chdir :: "trace \<Rightarrow> string \<Rightarrow> int"
  os_setenv :: "trace \<Rightarrow> string \<Rightarrow> string \<Rightarrow> int"
  fork_ok :: "trace \<Rightarrow> bool"
  os_pipe :: "trace \<Rightarrow> (int \<times> int) option"
  os_execvp :: "trace \<Rightarrow> string list \<Rightarrow> int option"

text \<open>
  A C function of the shell either returns to its caller, or the process it runs in ends
  inside it: by \<^verbatim>\<open>exit\<close> (the macro \<^verbatim>\<open>DIE\<close>), or by dereferencing a null pointer.
\<close>

datatype 'a outcome =
    Returned 'a trace
  | Exited int trace
  | Fault trace

fun trace_of :: "'a outcome \<Rightarrow> trace" where
  "trace_of (Returned v t) = t"
| "trace_of (Exited n t) = t"
| "trace_of (Fault t) = t"

fun status_of :: "'a outcome \<Rightarrow> 'a option" where
  "status_of (Returned v t) = Some v"
| "status_of (Exited n t) = None"
| "status_of (Fault t) = None"

definition STDIN_FILENO :: int where "STDIN_FILENO = 0"
definition STDOUT_FILENO :: int where "STDOUT_FILENO = 1"
definition STDERR_FILENO :: int where "STDERR_FILENO = 2"

text \<open>
  Modelled from the spec: the macro \<^verbatim>\<open>DIE(condition, message)\<close> of a header that is not
  among the sources. The spec calls these failures fatal for the command in progress: the
  process ends with a failure status. It is written \<open>if condition then Exited EXIT_FAILURE t\<close>.
\<close>

definition EXIT_FAILURE :: int where "EXIT_FAILURE = 1"

text \<open>
  The raw status \<^verbatim>\<open>waitpid\<close> stores for a process that called \<^verbatim>\<open>exit(n)\<close> keeps the
  low byte of \<open>n\<close> in bits 8 to 15; for a process killed by a signal it is the signal
  number. \<^verbatim>\<open>WEXITSTATUS\<close> reads bits 8 to 15.
\<close>

definition W_EXITCODE :: "int \<Rightarrow> int" where
  "W_EXITCODE n = (n mod 256) * 256"

definition WEXITSTATUS :: "int \<Rightarrow> int" where
  "WEXITSTATUS status = (status div 256) mod 256"

definition SIGSEGV :: int where "SIGSEGV = 11"

text \<open>The mode argument \<^verbatim>\<open>0644\<close> of \<^verbatim>\<open>open\<close>.\<close>

definition mode_0644 :: nat where "mode_0644 = 420"

section \<open>Redirections\<close>

definition redirect_input :: "sys \<Rightarrow> word option \<Rightarrow> trace \<Rightarrow> unit outcome" where
  "redirect_input K w t =
     (let filename = get_word K t w;
          fd = os_open K t filename {O_RDONLY};
          t1 = t @ [Ev_open filename {O_RDONLY} None]
      in if fd = -1 then Exited EXIT_FAILURE t1
         else
           let rc = os_dup2 K t1 fd STDIN_FILENO;
               t2 = t1 @ [Ev_dup2 fd STDIN_FILENO]
           in if rc = -1 then Exited EXIT_FAILURE t2
              else Returned () (t2 @ [Ev_close fd, Ev_fflush STDIN_FILENO]))"

definition redirect_output :: "sys \<Rightarrow> word option \<Rightarrow> int \<Rightarrow> trace \<Rightarrow> unit outcome" where
  "redirect_output K w flags t =
     (let filename = get_word K t w;
          how = (if flags = IO_OUT_APPEND K then {O_WRONLY, O_CREAT, O_APPEND}
                 else {O_WRONLY, O_CREAT, O_TRUNC});
          fd = os_open K t filename how;
          t1 = t @ [Ev_open filename how (Some mode_0644)]
      in if fd = -1 then Exited EXIT_FAILURE t1
         else
           let rc = os_dup2 K t1 fd STDOUT_FILENO;
               t2 = t1 @ [Ev_dup2 fd STDOUT_FILENO]
           in if rc = -1 then Exited EXIT_FAILURE t2
              else Returned () (t2 @ [Ev_close fd, Ev_fflush STDOUT_FILENO]))"

definition redirect_error :: "sys \<Rightarrow> word option \<Rightarrow> int \<Rightarrow> trace \<Rightarrow> unit outcome" where
  "redirect_error K w flags t =
     (let filename = get_word K t w;
          how = (if flags = IO_ERR_APPEND K then {O_WRONLY, O_CREAT, O_APPEND}
                 else {O_WRONLY, O_CREAT, O_TRUNC});
          fd = os_open K t filename how;
          t1 = t @ [Ev_open filename how (Some mode_0644)]
      in if fd = -1 then Exited EXIT_FAILURE t1
         else
           let rc = os_dup2 K t1 fd STDERR_FILENO;
               t2 = t1 @ [Ev_dup2 fd STDERR_FILENO]
           in if rc = -1 then Exited EXIT_FAILURE t2
              else Returned () (t2 @ [Ev_close fd, Ev_fflush STDERR_FILENO]))"

definition redirect_both_out_and_err :: "sys \<Rightarrow> simple_command \<Rightarrow> trace \<Rightarrow> unit outcome" where
  "redirect_both_out_and_err K s t =
     (let filename_out = get_word K t (out s);
          fd_out = os_open K t filename_out {O_WRONLY, O_CREAT, O_APPEND};
          t1 = t @ [Ev_open filename_out {O_WRONLY, O_CREAT, O_APPEND} (Some mode_0644)]
      in if fd_out = -1 then Exited EXIT_FAILURE t1
         else
           let filename_err = get_word K t1 (err s);
               fd_err = os_open K t1 filename_err {O_WRONLY, O_CREAT, O_TRUNC};
               t2 = t1 @ [Ev_open filename_err {O_WRONLY, O_CREAT, O_TRUNC} (Some mode_0644)]
           in if fd_err = -1 then Exited EXIT_FAILURE t2
              else
                let rc_out = os_dup2 K t2 fd_out STDOUT_FILENO;
                    t3 = t2 @ [Ev_dup2 fd_out STDOUT_FILENO]
                in if rc_out = -1 then Exited EXIT_FAILURE t3
                   else
                     let rc_err = os_dup2 K t3 fd_err STDERR_FILENO;
                         t4 = t3 @ [Ev_dup2 fd_err STDERR_FILENO]
                     in if rc_err = -1 then Exited EXIT_FAILURE t4
                        else Returned ()
                               (t4 @ [Ev_close fd_out, Ev_close fd_err,
                                      Ev_fflush STDOUT_FILENO, Ev_fflush STDERR_FILENO]))"

text \<open>
  The first statement of \<^verbatim>\<open>perform_redirections\<close>:
  \<^verbatim>\<open>if (s->in != NULL) redirect_input(s->in);\<close>
\<close>

definition input_stage :: "sys \<Rightarrow> simple_command \<Rightarrow> trace \<Rightarrow> unit outcome" where
  "input_stage K s t =
     (case inp s of None \<Rightarrow> Returned () t | Some w \<Rightarrow> redirect_input K (inp s) t)"

definition perform_redirections :: "sys \<Rightarrow> simple_command \<Rightarrow> trace \<Rightarrow> unit outcome" where
  "perform_redirections K s t =
     (case input_stage K s t of
        Exited n t1 \<Rightarrow> Exited n t1
      | Fault t1 \<Rightarrow> Fault t1
      | Returned u t1 \<Rightarrow>
          (if out s \<noteq> None then
             (if err s = None then redirect_output K (out s) (io_flags s) t1
              else redirect_both_out_and_err K s t1)
           else if err s \<noteq> None then redirect_error K (err s) (io_flags s) t1
           else Returned () t1))"

section \<open>Builtins and external commands\<close>

text \<open>
  \<^verbatim>\<open>shell_cd\<close> and \<^verbatim>\<open>complete_cd_command\<close> are declared \<^verbatim>\<open>bool\<close>. \<^verbatim>\<open>cmd.c\<close> uses
  \<^verbatim>\<open>bool\<close>, \<^verbatim>\<open>true\<close> and \<^verbatim>\<open>false\<close> without declaring them; they are taken to be those
  of \<^verbatim>\<open><stdbool.h>\<close>, the C type in which every value other than zero becomes
  \<^verbatim>\<open>true\<close>: the result of \<^verbatim>\<open>chdir\<close> is returned as \<open>return_value \<noteq> 0\<close>. Where a
  \<^verbatim>\<open>bool\<close> is handed on as an \<^verbatim>\<open>int\<close> it is \<open>of_bool\<close>: 1 for \<^verbatim>\<open>true\<close>, 0 for
  \<^verbatim>\<open>false\<close>.
\<close>

definition shell_cd :: "sys \<Rightarrow> word option \<Rightarrow> trace \<Rightarrow> bool outcome" where
  "shell_cd K dir t =
     (let dir_name = get_word K t dir;
          return_value = os_chdir K t dir_name
      in Returned (return_value \<noteq> 0) (t @ [Ev_chdir dir_name]))"

definition complete_cd_command :: "sys \<Rightarrow> simple_command \<Rightarrow> trace \<Rightarrow> bool outcome" where
  "complete_cd_command K s t =
     (case perform_redirections K s t of
        Exited n t1 \<Rightarrow> Exited n t1
      | Fault t1 \<Rightarrow> Fault t1
      | Returned u t1 \<Rightarrow> shell_cd K (params s) t1)"

definition shell_exit :: "sys \<Rightarrow> trace \<Rightarrow> int outcome" where
  "shell_exit K t = Returned (SHELL_EXIT K) t"

text \<open>
  The branch \<^verbatim>\<open>pid == 0\<close> of \<^verbatim>\<open>execute_external_command\<close>: what the forked child does,
  given as the raw wait status it ends with and the trace it leaves. \<^verbatim>\<open>execvp\<close> returns
  only when it fails, and then the child calls \<^verbatim>\<open>exit(0)\<close>.
\<close>

definition external_child :: "sys \<Rightarrow> simple_command \<Rightarrow> trace \<Rightarrow> int \<times> trace" where
  "external_child K s t =
     (case perform_redirections K s t of
        Exited n t1 \<Rightarrow> (W_EXITCODE n, t1 @ [Ev_exit n])
      | Fault t1 \<Rightarrow> (SIGSEGV, t1 @ [Ev_killed SIGSEGV])
      | Returned u t1 \<Rightarrow>
          (let argv = get_argv K t1 s;
               t2 = t1 @ [Ev_execvp argv]
           in case os_execvp K t1 argv of
                None \<Rightarrow> (W_EXITCODE 0, t2 @ [Ev_exit 0])
              | Some status \<Rightarrow> (status, t2)))"

definition execute_external_command :: "sys \<Rightarrow> simple_command \<Rightarrow> trace \<Rightarrow> int outcome" where
  "execute_external_command K s t =
     (if \<not> fork_ok K t then Returned 0 (t @ [Ev_fork])
      else
        (case external_child K s (t @ [Ev_fork]) of
           (status, t1) \<Rightarrow> Returned (WEXITSTATUS status) (t1 @ [Ev_waitpid])))"

text \<open>
  \<^verbatim>\<open>assign_environment_variable\<close> is only called when \<^verbatim>\<open>s->verb->next_part\<close> is not
  null. The C condition \<^verbatim>\<open>a || b\<close> is evaluated left to right, which the two tests in
  a row reproduce.
\<close>

definition assign_environment_variable :: "sys \<Rightarrow> simple_command \<Rightarrow> trace \<Rightarrow> int outcome" where
  "assign_environment_variable K s t =
     (case next_part (verb s) of
        None \<Rightarrow> Fault t
      | Some np \<Rightarrow>
          (if string np \<noteq> ''='' then Returned 0 t
           else if next_part np = None then Returned 0 t
           else
             let var_name = string (verb s);
                 var_value = get_word K t (next_part np);
                 return_value = os_setenv K t var_name var_value
             in Returned return_value (t @ [Ev_setenv var_name var_value 1])))"

definition parse_simple :: "sys \<Rightarrow> simple_command option \<Rightarrow> trace \<Rightarrow> int outcome" where
  "parse_simple K so t =
     (case so of
        None \<Rightarrow> Returned 0 t
      | Some s \<Rightarrow>
          (if string (verb s) = ''exit'' then shell_exit K t
           else if string (verb s) = ''quit'' then shell_exit K t
           else if string (verb s) = ''cd'' then
             (case complete_cd_command K s t of
                Exited n t1 \<Rightarrow> Exited n t1
              | Fault t1 \<Rightarrow> Fault t1
              | Returned b t1 \<Rightarrow> Returned (of_bool b) t1)
           else if next_part (verb s) \<noteq> None then assign_environment_variable K s t
           else execute_external_command K s t))"

section \<open>The evaluator\<close>

text \<open>
  A child created by \<^verbatim>\<open>run_in_parallel\<close> or \<^verbatim>\<open>run_on_pipe\<close> runs
  \<^verbatim>\<open>exit(parse_command(cmd, level + 1, father))\<close>: whatever \<^verbatim>\<open>parse_command\<close> returns
  becomes the argument of \<^verbatim>\<open>exit\<close>, of which the parent sees the low byte.
\<close>

definition child_exit :: "int outcome \<Rightarrow> int \<times> trace" where
  "child_exit r =
     (case r of
        Returned v t \<Rightarrow> (W_EXITCODE v, t @ [Ev_exit v])
      | Exited n t \<Rightarrow> (W_EXITCODE n, t @ [Ev_exit n])
      | Fault t \<Rightarrow> (SIGSEGV, t @ [Ev_killed SIGSEGV]))"

text \<open>
  The parameters \<^verbatim>\<open>level\<close> and \<^verbatim>\<open>father\<close> are passed along by every function and
  read by none; they are left out. The children of \<^verbatim>\<open>fork\<close> run at the same time as
  their parent; the trace lists each child's calls right after the \<^verbatim>\<open>fork\<close> that
  created it. The status a parent computes depends only on the wait statuses of its
  children. \<^verbatim>\<open>waitpid\<close> on a child of one's own is taken to succeed and to store the
  child's wait status.

  \<^verbatim>\<open>run_in_parallel\<close> and \<^verbatim>\<open>run_on_pipe\<close> are declared \<^verbatim>\<open>bool\<close>; \<^verbatim>\<open>parse_command\<close>
  stores their result in the \<^verbatim>\<open>int\<close> \<^verbatim>\<open>exit_code\<close>.
\<close>

function parse_command :: "sys \<Rightarrow> command option \<Rightarrow> trace \<Rightarrow> int outcome"
  and run_in_parallel :: "sys \<Rightarrow> command option \<Rightarrow> command option \<Rightarrow> trace \<Rightarrow> bool outcome"
  and run_on_pipe :: "sys \<Rightarrow> command option \<Rightarrow> command option \<Rightarrow> trace \<Rightarrow> bool outcome"
where
  "parse_command K None t = Fault t"
| "parse_command K (Some (Command opr sc c1 c2)) t =
     (if opr = OP_NONE then parse_simple K sc t
      else
        (case opr of
           OP_SEQUENTIAL \<Rightarrow>
             (case parse_command K c1 t of
                Exited n t1 \<Rightarrow> Exited n t1
              | Fault t1 \<Rightarrow> Fault t1
              | Returned discarded t1 \<Rightarrow> parse_command K c2 t1)
         | OP_PARALLEL \<Rightarrow>
             (case run_in_parallel K c1 c2 t of
                Exited n t1 \<Rightarrow> Exited n t1
              | Fault t1 \<Rightarrow> Fault t1
              | Returned b t1 \<Rightarrow> Returned (of_bool b) t1)
         | OP_CONDITIONAL_NZERO \<Rightarrow>
             (case parse_command K c1 t of
                Exited n t1 \<Rightarrow> Exited n t1
              | Fault t1 \<Rightarrow> Fault t1
              | Returned exit_code t1 \<Rightarrow>
                  (if exit_code \<noteq> 0 then parse_command K c2 t1
                   else Returned exit_code t1))
         | OP_CONDITIONAL_ZERO \<Rightarrow>
             (case parse_command K c1 t of
                Exited n t1 \<Rightarrow> Exited n t1
              | Fault t1 \<Rightarrow> Fault t1
              | Returned exit_code t1 \<Rightarrow>
                  (if exit_code = 0 then parse_command K c2 t1
                   else Returned exit_code t1))
         | OP_PIPE \<Rightarrow>
             (case run_on_pipe K c1 c2 t of
                Exited n t1 \<Rightarrow> Exited n t1
              | Fault t1 \<Rightarrow> Fault t1
              | Returned b t1 \<Rightarrow> Returned (of_bool b) t1)
         | _ \<Rightarrow> Returned (SHELL_EXIT K) t))"
| "run_in_parallel K c1 c2 t =
     (if \<not> fork_ok K t then Returned False (t @ [Ev_fork])
      else
        (case child_exit (parse_command K c1 (t @ [Ev_fork])) of
           (first_status, t1) \<Rightarrow>
             (if \<not> fork_ok K t1 then Returned False (t1 @ [Ev_fork])
              else
                (case child_exit (parse_command K c2 (t1 @ [Ev_fork])) of
                   (second_status, t2) \<Rightarrow>
                     (let t3 = t2 @ [Ev_waitpid, Ev_waitpid]
                      in if WEXITSTATUS first_status \<noteq> 0 then Returned False t3
                         else if WEXITSTATUS second_status \<noteq> 0 then Returned False t3
                         else Returned True t3)))))"
| "run_on_pipe K c1 c2 t =
     (case os_pipe K t of
        None \<Rightarrow> Returned False (t @ [Ev_pipe])
      | Some (rd, wr) \<Rightarrow>
          (let t0 = t @ [Ev_pipe]
           in if \<not> fork_ok K t0 then Returned False (t0 @ [Ev_fork])
              else
                (case (let rc = os_dup2 K (t0 @ [Ev_fork]) wr STDOUT_FILENO;
                           ta = t0 @ [Ev_fork, Ev_dup2 wr STDOUT_FILENO]
                       in if rc = -1 then (W_EXITCODE EXIT_FAILURE, ta @ [Ev_exit EXIT_FAILURE])
                          else child_exit
                                 (parse_command K c1 (ta @ [Ev_close wr, Ev_close rd]))) of
                   (first_status, t1) \<Rightarrow>
                     (if \<not> fork_ok K t1 then Returned False (t1 @ [Ev_fork])
                      else
                        (case (let rc = os_dup2 K (t1 @ [Ev_fork]) rd STDIN_FILENO;
                                   tb = t1 @ [Ev_fork, Ev_dup2 rd STDIN_FILENO]
                               in if rc = -1
                                  then (W_EXITCODE EXIT_FAILURE, tb @ [Ev_exit EXIT_FAILURE])
                                  else child_exit
                                         (parse_command K c2
                                            (tb @ [Ev_close rd, Ev_close wr]))) of
                           (status, t2) \<Rightarrow>
                             Returned (WEXITSTATUS status \<noteq> 0)
                               (t2 @ [Ev_close rd, Ev_close wr, Ev_waitpid, Ev_waitpid]))))))"
  by pat_completeness auto

termination
  by (relation "measure (\<lambda>x. case x of
          Inl (K, c, t) \<Rightarrow> 2 * size_option size c + 1
        | Inr (Inl (K, c1, c2, t)) \<Rightarrow> 2 * (size_option size c1 + size_option size c2) + 2
        | Inr (Inr (K, c1, c2, t)) \<Rightarrow> 2 * (size_option size c1 + size_option size c2) + 2)")
     auto

section \<open>Observations and sample inputs\<close>

text \<open>The \<^verbatim>\<open>open\<close> calls of a trace, in order: the path and the flags of each.\<close>

fun opened :: "trace \<Rightarrow> (string \<times> oflag set) list" where
  "opened [] = []"
| "opened (Ev_open p f m # t) = (p, f) # opened t"
| "opened (e # t) = opened t"

text \<open>
  A sample system for the closed examples: every call succeeds, \<^verbatim>\<open>open\<close> hands out
  descriptors from 3 on, a word resolves to its first part, and three programs exist:
  \<^verbatim>\<open>true\<close> ends with exit status 0, \<^verbatim>\<open>false\<close> with 1 and \<^verbatim>\<open>exit2\<close> with 2 (raw wait
  statuses 0, 256 and 512). Any other program cannot be executed.
\<close>

definition sample_sys :: sys where
  "sample_sys =
     \<lparr>SHELL_EXIT = - 100, IO_OUT_APPEND = 1, IO_ERR_APPEND = 2,
      get_word = (\<lambda>t w. case w of None \<Rightarrow> [] | Some x \<Rightarrow> string x),
      get_argv = (\<lambda>t s. [string (verb s)]),
      os_open = (\<lambda>t p f. 3 + int (length (opened t))),
      os_dup2 = (\<lambda>t a b. b),
      os_chdir = (\<lambda>t p. 0),
      os_setenv = (\<lambda>t n v. 0),
      fork_ok = (\<lambda>t. True),
      os_pipe = (\<lambda>t. Some (3, 4)),
      os_execvp = (\<lambda>t argv.
         if argv = [''true''] then Some 0
         else if argv = [''false''] then Some 256
         else if argv = [''exit2''] then Some 512
         else None)\<rparr>"

text \<open>The same system when no process can be created, and when no pipe can be created.\<close>

definition no_fork_sys :: sys where
  "no_fork_sys = sample_sys\<lparr>fork_ok := (\<lambda>t. False)\<rparr>"

definition no_pipe_sys :: sys where
  "no_pipe_sys = sample_sys\<lparr>os_pipe := (\<lambda>t. None)\<rparr>"

text \<open>A leaf whose simple command is the single word \<open>v\<close>, and an operator node.\<close>

definition simple :: "string \<Rightarrow> command option" where
  "simple v =
     Some (Command OP_NONE
       (Some \<lparr>verb = Word v None, params = None, inp = None, out = None, err = None,
              io_flags = 0\<rparr>) None None)"

definition node :: "operator \<Rightarrow> command option \<Rightarrow> command option \<Rightarrow> command option" where
  "node opr a b = Some (Command opr None a b)"

text \<open>
  \<^verbatim>\<open>ls\<close> with both an output and an error target; \<open>io_flags\<close> is the sample system's
  \<open>IO_ERR_APPEND\<close>: the error target asks for append, the output target does not.
\<close>

definition both_redirected :: simple_command where
  "both_redirected =
     \<lparr>verb = Word ''ls'' None, params = None, inp = None,
      out = Some (Word ''out.txt'' None), err = Some (Word ''err.txt'' None),
      io_flags = 2\<rparr>"

text \<open>The verb \<^verbatim>\<open>X=\<close>: the part \<^verbatim>\<open>X\<close>, then the part \<^verbatim>\<open>=\<close>, and no value after it.\<close>

definition assignment_without_value :: simple_command where
  "assignment_without_value =
     \<lparr>verb = Word ''X'' (Some (Word ''='' None)), params = None, inp = None,
      out = None, err = None, io_flags = 0\<rparr>"

lemmas eval_defs =
  sample_sys_def no_fork_sys_def no_pipe_sys_def simple_def node_def parse_simple_def
  shell_exit_def execute_external_command_def external_child_def perform_redirections_def
  input_stage_def child_exit_def W_EXITCODE_def WEXITSTATUS_def Let_def

section \<open>What the operators return, in general\<close>

text \<open>
  \<^verbatim>\<open>run_in_parallel\<close> answers \<^verbatim>\<open>true\<close> exactly when both children are created and both
  end with exit status 0; \<^verbatim>\<open>parse_command\<close> returns that answer as a number.
\<close>

lemma parallel_status:
  assumes "fork_ok K t"
    and "child_exit (parse_command K a (t @ [Ev_fork])) = (sa, ta)"
    and "fork_ok K ta"
    and "child_exit (parse_command K b (ta @ [Ev_fork])) = (sb, tb)"
  shows "parse_command K (Some (Command OP_PARALLEL sc a b)) t =
           Returned (if WEXITSTATUS sa = 0 \<and> WEXITSTATUS sb = 0 then 1 else 0)
             (tb @ [Ev_waitpid, Ev_waitpid])"
  using assms by (simp add: Let_def)

lemma parallel_fork_failure:
  "\<not> fork_ok K t \<Longrightarrow>
   parse_command K (Some (Command OP_PARALLEL sc a b)) t = Returned 0 (t @ [Ev_fork])"
  by simp

lemma parallel_second_fork_failure:
  assumes "fork_ok K t"
    and "child_exit (parse_command K a (t @ [Ev_fork])) = (sa, ta)"
    and "\<not> fork_ok K ta"
  shows "parse_command K (Some (Command OP_PARALLEL sc a b)) t = Returned 0 (ta @ [Ev_fork])"
  using assms by simp

text \<open>
  \<^verbatim>\<open>run_on_pipe\<close> returns \<^verbatim>\<open>WEXITSTATUS(status)\<close> through its \<^verbatim>\<open>bool\<close> result type, so
  \<^verbatim>\<open>parse_command\<close> returns 0 or 1 for a pipe, whatever the right-hand child's status.
\<close>

lemma pipe_status_is_0_or_1:
  "status_of (parse_command K (Some (Command OP_PIPE sc a b)) t) \<in> {Some 0, Some 1}"
  by (simp add: Let_def split: option.split prod.split)

lemma pipe_failure:
  "os_pipe K t = None \<Longrightarrow>
   parse_command K (Some (Command OP_PIPE sc a b)) t = Returned 0 (t @ [Ev_pipe])"
  by simp

lemma external_fork_failure:
  "\<not> fork_ok K t \<Longrightarrow> execute_external_command K s t = Returned 0 (t @ [Ev_fork])"
  by (simp add: execute_external_command_def)

lemma external_exec_failure:
  assumes "fork_ok K t"
    and "perform_redirections K s (t @ [Ev_fork]) = Returned u t1"
    and "os_execvp K t1 (get_argv K t1 s) = None"
  shows "execute_external_command K s t =
           Returned 0 (t1 @ [Ev_execvp (get_argv K t1 s), Ev_exit 0, Ev_waitpid])"
  using assms
  by (simp add: execute_external_command_def external_child_def W_EXITCODE_def
      WEXITSTATUS_def Let_def)

text \<open>A well-formed assignment returns what \<^verbatim>\<open>setenv\<close> returns.\<close>

lemma assignment_returns_setenv_result:
  assumes "next_part (verb s) = Some np" and "string np = ''=''" and "next_part np = Some val"
  shows "assign_environment_variable K s t =
           Returned (os_setenv K t (string (verb s)) (get_word K t (Some val)))
             (t @ [Ev_setenv (string (verb s)) (get_word K t (Some val)) 1])"
  using assms by (simp add: assign_environment_variable_def Let_def)

section \<open>The claims\<close>

text \<open>
  C1. The spec: under the PARALLEL operator the evaluator returns 0 when both children end
  with status 0, and the failure value 1 when at least one of them ends with another
  status. The code returns these two values the other way round: \<^verbatim>\<open>run_in_parallel\<close>
  answers \<^verbatim>\<open>true\<close> for success, and \<^verbatim>\<open>parse_command\<close> hands that on as the exit code.
  Two children that both end with 0 give 1; a child ending with 0 beside a child ending
  with 2 gives 0. The code does not agree with itself either: \<^verbatim>\<open>run_in_parallel\<close> reads a
  child's status other than 0 as failure, so a PARALLEL node whose first child is the
  successful PARALLEL node of the first example is taken to have a failed child.
\<close>

theorem C1_parallel_returns_success_flag:
  "status_of (parse_command sample_sys (node OP_PARALLEL (simple ''true'') (simple ''true'')) [])
     = Some 1 \<and>
   status_of (parse_command sample_sys (node OP_PARALLEL (simple ''true'') (simple ''exit2'')) [])
     = Some 0 \<and>
   status_of (parse_command sample_sys
                (node OP_PARALLEL (node OP_PARALLEL (simple ''true'') (simple ''true''))
                   (simple ''true'')) [])
     = Some 0"
  by (simp add: eval_defs)

text \<open>
  C2. The spec: under the PIPE operator the evaluator returns the right-hand child's exit
  status exactly, its full low byte. In the code the status passes through the \<^verbatim>\<open>bool\<close>
  result of \<^verbatim>\<open>run_on_pipe\<close>: the program \<^verbatim>\<open>exit2\<close> alone returns 2, at the right of a
  pipe it makes the pipe return 1.
\<close>

theorem C2_pipe_status_collapsed:
  "status_of (parse_command sample_sys (simple ''exit2'') []) = Some 2 \<and>
   status_of (parse_command sample_sys (node OP_PIPE (simple ''true'') (simple ''exit2'')) [])
     = Some 1"
  by (simp add: eval_defs STDOUT_FILENO_def STDIN_FILENO_def)

text \<open>
  C3. The spec: when the program image cannot be replaced, the forked child ends at once
  with a status other than 0, and the parent sees a failure. In the code the child ends at
  once, but by \<^verbatim>\<open>exit(0)\<close>: for a program that does not exist the child's wait status
  is that of a successful exit, and the leaf returns 0.
\<close>

theorem C3_exec_failure_exits_zero:
  "os_execvp sample_sys [Ev_fork] [''nosuchprogram''] = None \<and>
   external_child sample_sys
       \<lparr>verb = Word ''nosuchprogram'' None, params = None, inp = None, out = None,
        err = None, io_flags = 0\<rparr> [Ev_fork]
     = (W_EXITCODE 0, [Ev_fork, Ev_execvp [''nosuchprogram''], Ev_exit 0]) \<and>
   status_of (parse_command sample_sys (simple ''nosuchprogram'') []) = Some 0"
  by (simp add: eval_defs)

text \<open>
  C4. The spec: when \<^verbatim>\<open>fork\<close> or \<^verbatim>\<open>pipe\<close> fails, the enclosing operator yields a
  failure status, never the success status 0. In the code every such path returns 0: an
  external command, a PARALLEL node and a PIPE node when no process can be created, and a
  PIPE node when no pipe can be created.
\<close>

theorem C4_fork_and_pipe_failure_return_zero:
  "status_of (parse_command no_fork_sys (simple ''true'') []) = Some 0 \<and>
   status_of (parse_command no_fork_sys (node OP_PARALLEL (simple ''true'') (simple ''true'')) [])
     = Some 0 \<and>
   status_of (parse_command no_fork_sys (node OP_PIPE (simple ''true'') (simple ''true'')) [])
     = Some 0 \<and>
   status_of (parse_command no_pipe_sys (node OP_PIPE (simple ''true'') (simple ''true'')) [])
     = Some 0"
  by (simp add: eval_defs)

text \<open>
  C5, as the spec states it: when the left subtree of a SEQUENTIAL, IF_NONZERO or IF_ZERO
  node yields the termination sentinel, the node returns the sentinel. The code has no
  test for the sentinel anywhere in \<^verbatim>\<open>parse_command\<close>. Counterexample: \<^verbatim>\<open>exit\<close> as
  the left subtree yields the sentinel, and with \<^verbatim>\<open>true\<close> as the right subtree neither
  the SEQUENTIAL nor the IF_NONZERO node returns it.
\<close>

theorem C5_counterexample:
  "status_of (parse_command sample_sys (simple ''exit'') []) = Some (SHELL_EXIT sample_sys) \<and>
   status_of (parse_command sample_sys
                (node OP_SEQUENTIAL (simple ''exit'') (simple ''true'')) [])
     \<noteq> Some (SHELL_EXIT sample_sys) \<and>
   status_of (parse_command sample_sys
                (node OP_CONDITIONAL_NZERO (simple ''exit'') (simple ''true'')) [])
     \<noteq> Some (SHELL_EXIT sample_sys)"
  by (simp add: eval_defs)

text \<open>
  C5, amended: the sentinel is a status like any other. When the left subtree yields the
  sentinel and the sentinel is not 0, an IF_ZERO node returns the sentinel without
  evaluating the right subtree, while a SEQUENTIAL node and an IF_NONZERO node evaluate
  the right subtree and return its status.
\<close>

theorem C5_sentinel_is_an_ordinary_status:
  assumes "parse_command K a t = Returned (SHELL_EXIT K) t1"
    and "SHELL_EXIT K \<noteq> 0"
  shows "parse_command K (Some (Command OP_CONDITIONAL_ZERO sc a b)) t =
           Returned (SHELL_EXIT K) t1 \<and>
         parse_command K (Some (Command OP_SEQUENTIAL sc a b)) t = parse_command K b t1 \<and>
         parse_command K (Some (Command OP_CONDITIONAL_NZERO sc a b)) t = parse_command K b t1"
  using assms by simp

theorem C5_sentinel_witness:
  "parse_command sample_sys (simple ''exit'') [] = Returned (SHELL_EXIT sample_sys) [] \<and>
   SHELL_EXIT sample_sys \<noteq> 0 \<and>
   parse_command sample_sys (node OP_CONDITIONAL_ZERO (simple ''exit'') (simple ''true'')) []
     = Returned (SHELL_EXIT sample_sys) [] \<and>
   parse_command sample_sys (node OP_SEQUENTIAL (simple ''exit'') (simple ''true'')) []
     = parse_command sample_sys (simple ''true'') [] \<and>
   parse_command sample_sys (node OP_CONDITIONAL_NZERO (simple ''exit'') (simple ''true'')) []
     = parse_command sample_sys (simple ''true'') []"
proof -
  have left: "parse_command sample_sys (simple ''exit'') [] = Returned (SHELL_EXIT sample_sys) []"
    by (simp add: eval_defs)
  have nonzero: "SHELL_EXIT sample_sys \<noteq> 0"
    by (simp add: sample_sys_def)
  show ?thesis
    using left nonzero
      C5_sentinel_is_an_ordinary_status [OF left nonzero, of None "simple ''true''"]
    by (simp add: node_def)
qed

text \<open>
  C6. Evaluating SEQUENTIAL(A, B) evaluates A, discards its status, evaluates B in the
  state A left, and returns what B returns: whatever status \<open>v\<close> A returned.
\<close>

theorem C6_sequential_returns_right_status:
  "parse_command K a t = Returned v t1 \<Longrightarrow>
   parse_command K (Some (Command OP_SEQUENTIAL sc a b)) t = parse_command K b t1"
  by simp

theorem C6_sequential_witness:
  "parse_command sample_sys (simple ''false'') [] =
     Returned 1 [Ev_fork, Ev_execvp [''false''], Ev_waitpid] \<and>
   parse_command sample_sys (node OP_SEQUENTIAL (simple ''false'') (simple ''true'')) [] =
     parse_command sample_sys (simple ''true'') [Ev_fork, Ev_execvp [''false''], Ev_waitpid] \<and>
   status_of (parse_command sample_sys
                (node OP_SEQUENTIAL (simple ''false'') (simple ''true'')) []) = Some 0"
proof -
  have left: "parse_command sample_sys (simple ''false'') [] =
      Returned 1 [Ev_fork, Ev_execvp [''false''], Ev_waitpid]"
    by (simp add: eval_defs)
  have right: "status_of (parse_command sample_sys (simple ''true'')
      [Ev_fork, Ev_execvp [''false''], Ev_waitpid]) = Some 0"
    by (simp add: eval_defs)
  show ?thesis
    using left right
      C6_sequential_returns_right_status [OF left, of None "simple ''true''"]
    by (simp add: node_def)
qed

text \<open>
  C7. Evaluating IF_NONZERO(A, B) (\<open>OP_CONDITIONAL_NZERO\<close>) evaluates A; when A's status
  is not 0 it evaluates B and returns B's status, otherwise it returns A's status and B
  is not evaluated. Evaluating IF_ZERO(A, B) (\<open>OP_CONDITIONAL_ZERO\<close>) evaluates A; when
  A's status is 0 it evaluates B and returns B's status, otherwise it returns A's status
  and B is not evaluated.
\<close>

theorem C7_conditional_operators:
  "parse_command K a t = Returned v t1 \<Longrightarrow>
   parse_command K (Some (Command OP_CONDITIONAL_NZERO sc a b)) t =
     (if v \<noteq> 0 then parse_command K b t1 else Returned v t1) \<and>
   parse_command K (Some (Command OP_CONDITIONAL_ZERO sc a b)) t =
     (if v = 0 then parse_command K b t1 else Returned v t1)"
  by simp

theorem C7_conditional_witness:
  "parse_command sample_sys (simple ''false'') [] =
     Returned 1 [Ev_fork, Ev_execvp [''false''], Ev_waitpid] \<and>
   parse_command sample_sys (node OP_CONDITIONAL_NZERO (simple ''false'') (simple ''exit2'')) [] =
     parse_command sample_sys (simple ''exit2'') [Ev_fork, Ev_execvp [''false''], Ev_waitpid] \<and>
   parse_command sample_sys (node OP_CONDITIONAL_ZERO (simple ''false'') (simple ''exit2'')) [] =
     Returned 1 [Ev_fork, Ev_execvp [''false''], Ev_waitpid]"
proof -
  have left: "parse_command sample_sys (simple ''false'') [] =
      Returned 1 [Ev_fork, Ev_execvp [''false''], Ev_waitpid]"
    by (simp add: eval_defs)
  show ?thesis
    using left C7_conditional_operators [OF left, of None "simple ''exit2''"]
    by (simp add: node_def)
qed

text \<open>
  C8. With both an output and an error target, applying the redirections opens the output
  target with \<^verbatim>\<open>O_APPEND\<close> and then the error target with \<^verbatim>\<open>O_TRUNC\<close>, whatever
  \<open>io_flags\<close> says (the error target is not opened when opening the output target
  failed). With only one of the two targets, the target is opened with \<^verbatim>\<open>O_APPEND\<close> when
  \<open>io_flags\<close> is that target's append flag, and with \<^verbatim>\<open>O_TRUNC\<close> otherwise. The theorem
  lists every \<^verbatim>\<open>open\<close> call made after the input target, if any, has been attached.
\<close>

theorem C8_redirection_open_modes:
  assumes "input_stage K s t = Returned u t1"
  shows "opened (drop (length t1) (trace_of (perform_redirections K s t))) =
     (if out s \<noteq> None then
        (if err s \<noteq> None then
           (get_word K t1 (out s), {O_WRONLY, O_CREAT, O_APPEND}) #
           (if os_open K t1 (get_word K t1 (out s)) {O_WRONLY, O_CREAT, O_APPEND} = -1 then []
            else [(get_word K
                     (t1 @ [Ev_open (get_word K t1 (out s)) {O_WRONLY, O_CREAT, O_APPEND}
                              (Some mode_0644)])
                     (err s),
                   {O_WRONLY, O_CREAT, O_TRUNC})])
         else [(get_word K t1 (out s),
                if io_flags s = IO_OUT_APPEND K then {O_WRONLY, O_CREAT, O_APPEND}
                else {O_WRONLY, O_CREAT, O_TRUNC})])
      else if err s \<noteq> None then
        [(get_word K t1 (err s),
          if io_flags s = IO_ERR_APPEND K then {O_WRONLY, O_CREAT, O_APPEND}
          else {O_WRONLY, O_CREAT, O_TRUNC})]
      else [])"
  using assms
  by (simp add: perform_redirections_def redirect_output_def redirect_error_def
      redirect_both_out_and_err_def Let_def)

theorem C8_redirection_witness:
  "input_stage sample_sys both_redirected [] = Returned () [] \<and>
   io_flags both_redirected = IO_ERR_APPEND sample_sys \<and>
   opened (drop (length ([]::trace))
             (trace_of (perform_redirections sample_sys both_redirected []))) =
     [(''out.txt'', {O_WRONLY, O_CREAT, O_APPEND}), (''err.txt'', {O_WRONLY, O_CREAT, O_TRUNC})]"
proof -
  have stage: "input_stage sample_sys both_redirected [] = Returned () []"
    by (simp add: input_stage_def both_redirected_def)
  show ?thesis
    using stage C8_redirection_open_modes [OF stage]
    by (simp add: sample_sys_def both_redirected_def)
qed

text \<open>
  C9. The spec: a leaf whose verb is followed by further parts is an assignment attempt;
  when it is malformed (the next part is not \<^verbatim>\<open>=\<close>, or no value follows) the dispatcher
  returns a status other than 0, and when it is well formed it returns the result of
  \<^verbatim>\<open>setenv\<close>. The second half holds (\<open>assignment_returns_setenv_result\<close>). For the
  malformed attempt the code returns 0: the verb \<^verbatim>\<open>X=\<close> with no value is such a leaf.
\<close>

theorem C9_malformed_assignment_returns_zero:
  "next_part (verb assignment_without_value) \<noteq> None \<and>
   parse_simple sample_sys (Some assignment_without_value) [] = Returned 0 [] \<and>
   parse_command sample_sys
     (Some (Command OP_NONE (Some assignment_without_value) None None)) [] = Returned 0 []"
  by (simp add: parse_simple_def assign_environment_variable_def assignment_without_value_def)

text \<open>
  C10. A node whose operator is neither \<open>OP_NONE\<close> (a leaf) nor one of SEQUENTIAL,
  PARALLEL, IF_NONZERO, IF_ZERO and PIPE makes the evaluator return \<open>SHELL_EXIT\<close> at once:
  the trace is unchanged, no child is evaluated, and the children may be anything.
\<close>

theorem C10_unknown_operator_returns_sentinel:
  "opr \<notin> {OP_NONE, OP_SEQUENTIAL, OP_PARALLEL, OP_CONDITIONAL_NZERO,
           OP_CONDITIONAL_ZERO, OP_PIPE} \<Longrightarrow>
   parse_command K (Some (Command opr sc a b)) t = Returned (SHELL_EXIT K) t"
  by (cases opr) simp_all

theorem C10_unknown_operator_witness:
  "OP_OTHER 7 \<notin> {OP_NONE, OP_SEQUENTIAL, OP_PARALLEL, OP_CONDITIONAL_NZERO,
                 OP_CONDITIONAL_ZERO, OP_PIPE} \<and>
   parse_command sample_sys (node (OP_OTHER 7) (simple ''true'') (simple ''false'')) [] =
     Returned (- 100) []"
  using C10_unknown_operator_returns_sentinel
          [of "OP_OTHER 7" sample_sys None "simple ''true''" "simple ''false''" "[]"]
  by (simp add: node_def sample_sys_def)

end
